theory Spec2Isabelle
  imports Complex_Main
begin

section \<open>Common Python values\<close>

text \<open>
  The repository is Python. Its floats are modelled as \<open>real\<close> numbers: every decision
  of the code below compares sums, means and quotients of confidences against decimal
  constants, and the model computes those exactly. Its exceptions are values of the
  type \<open>py_error\<close>; a function that can raise returns \<open>py_error + 'a\<close>, with \<open>Inl\<close>
  for the raised exception.
\<close>

datatype py_error =
    StatisticsError
  | AttributeError string
  | KeyError string
  | ZeroDivisionError
  | ValueError string
  | ToolError string


text \<open>
  \<open>statistics.mean\<close> raises on an empty list; \<open>statistics.stdev\<close> is the square root of
  the sample variance (divisor \<open>n - 1\<close>) and raises on fewer than two points.
\<close>

definition arith_mean :: "real list \<Rightarrow> real" where
  "arith_mean xs = sum_list xs / real (length xs)"

definition sample_stdev :: "real list \<Rightarrow> real" where
  "sample_stdev xs =
     sqrt (sum_list (map (\<lambda>x. (x - arith_mean xs)\<^sup>2) xs) / real (length xs - 1))"

definition statistics_mean :: "real list \<Rightarrow> py_error + real" where
  "statistics_mean xs = (if xs = [] then Inl StatisticsError else Inr (arith_mean xs))"

definition statistics_stdev :: "real list \<Rightarrow> py_error + real" where
  "statistics_stdev xs =
     (if length xs < 2 then Inl StatisticsError else Inr (sample_stdev xs))"

section \<open>hrm_advanced_convergence.py\<close>

subsection \<open>Data\<close>

datatype ConvergenceStrategy =
    CONFIDENCE_THRESHOLD
  | DIMINISHING_RETURNS
  | CONSENSUS_VALIDATION
  | ADAPTIVE_LEARNING

fun strategy_value :: "ConvergenceStrategy \<Rightarrow> string" where
  "strategy_value CONFIDENCE_THRESHOLD = ''confidence_threshold''"
| "strategy_value DIMINISHING_RETURNS = ''diminishing_returns''"
| "strategy_value CONSENSUS_VALIDATION = ''consensus_validation''"
| "strategy_value ADAPTIVE_LEARNING = ''adaptive_learning''"

text \<open>
  The values stored under a strategy's \<open>'metrics'\<close> key: a float, a list of floats, a
  count, or a dictionary from tool names to floats.
\<close>

datatype metric =
    Num real
  | Nums "real list"
  | Count nat
  | Table "(string \<times> real) list"

text \<open>
  A \<open>'reason'\<close> is either a literal or an f-string; the f-string is kept as its template
  and the numbers it formats, so that no float has to be rendered.
\<close>

datatype reason_text =
    Literal string
  | FString string "real list"

text \<open>
  The dictionary every strategy returns. \<open>metrics\<close> is the empty list where the
  dictionary has no \<open>'metrics'\<close> key.
\<close>

record strategy_result =
  converged :: bool
  strategy :: ConvergenceStrategy
  score :: real
  metrics :: "(string \<times> metric) list"
  reason :: reason_text

subsection \<open>Strategy 2: diminishing returns\<close>

text \<open>The loop \<open>for i in range(1, len(confidences))\<close> collecting \<open>max(0, gain)\<close>.\<close>

fun information_gains :: "real list \<Rightarrow> real list" where
  "information_gains (a # b # cs) = max 0 (b - a) # information_gains (b # cs)"
| "information_gains cs = []"

text \<open>The slice \<open>xs[-2:]\<close>: the last two elements, or all of a shorter list.\<close>

definition last_two :: "'a list \<Rightarrow> 'a list" where
  "last_two xs = drop (length xs - 2) xs"

definition analyze_diminishing_returns :: "real list \<Rightarrow> py_error + strategy_result" where
  "analyze_diminishing_returns confidences =
     (if length confidences < 3 then
        Inr \<lparr>converged = False, strategy = DIMINISHING_RETURNS, score = 0,
             metrics = [],
             reason = Literal ''Insufficient data for diminishing returns analysis''\<rparr>
      else
        (let gains = information_gains confidences in
         if 2 \<le> length gains then
           (let recent_trend = last_two gains;
                diminishing = list_all (\<lambda>g. g \<le> 0.05) recent_trend
            in case statistics_mean gains of
                 Inl e \<Rightarrow> Inl e
               | Inr avg_gain \<Rightarrow>
                   (let conv = (diminishing \<and> avg_gain < 0.1)
                    in Inr \<lparr>converged = conv, strategy = DIMINISHING_RETURNS,
                            score = (if conv then 1 - avg_gain else avg_gain),
                            metrics = [(''information_gains'', Nums gains),
                                       (''average_gain'', Num avg_gain),
                                       (''recent_trend'', Nums recent_trend)],
                            reason = FString ''Information gain trend: {}, avg: {:.3f}''
                                       (recent_trend @ [avg_gain])\<rparr>))
         else
           Inr \<lparr>converged = False, strategy = DIMINISHING_RETURNS, score = 0.5,
                metrics = [], reason = Literal ''Insufficient trend data''\<rparr>))"

subsection \<open>Strategy 1: confidence threshold\<close>

definition complexity_thresholds :: "string \<Rightarrow> real option" where
  "complexity_thresholds =
     [''simple'' \<mapsto> 0.65, ''medium'' \<mapsto> 0.75, ''complex'' \<mapsto> 0.80, ''expert'' \<mapsto> 0.85]"

text \<open>\<open>d.get(k, default)\<close>.\<close>

definition dict_get :: "('k \<Rightarrow> 'v option) \<Rightarrow> 'k \<Rightarrow> 'v \<Rightarrow> 'v" where
  "dict_get d k dflt = (case d k of Some v \<Rightarrow> v | None \<Rightarrow> dflt)"

text \<open>
  The first argument is \<open>self.base_threshold\<close>, the only attribute of the analyzer the
  method reads.
\<close>

definition analyze_confidence_threshold ::
  "real \<Rightarrow> real list \<Rightarrow> real \<Rightarrow> string \<Rightarrow> py_error + strategy_result" where
  "analyze_confidence_threshold base confidences success_rate complexity =
     (let threshold = dict_get complexity_thresholds complexity base in
      case statistics_mean confidences of
        Inl e \<Rightarrow> Inl e
      | Inr avg_confidence \<Rightarrow>
         (case (if 1 < length confidences then statistics_stdev confidences else Inr 0) of
            Inl e \<Rightarrow> Inl e
          | Inr confidence_std \<Rightarrow>
             (let confidence_stability =
                    (if 0 < avg_confidence then 1 - min (confidence_std / avg_confidence) 1
                     else 0);
                  conv = (threshold \<le> avg_confidence \<and> 0.8 \<le> success_rate
                          \<and> 0.7 \<le> confidence_stability)
              in Inr \<lparr>converged = conv, strategy = CONFIDENCE_THRESHOLD,
                      score = avg_confidence * success_rate * confidence_stability,
                      metrics = [(''avg_confidence'', Num avg_confidence),
                                 (''threshold'', Num threshold),
                                 (''success_rate'', Num success_rate),
                                 (''stability'', Num confidence_stability)],
                      reason = FString
                        ''Confidence: {:.2f} vs {:.2f}, Success: {:.1%}, Stability: {:.2f}''
                        [avg_confidence, threshold, success_rate, confidence_stability]\<rparr>)))"

subsection \<open>The records the analyzer reads\<close>

text \<open>
  The analyzer takes a list of objects and asks \<open>hasattr\<close> before it reads
  \<open>confidence\<close>, \<open>success\<close> and \<open>tool_name\<close>; an attribute the object does not have
  is \<open>None\<close> here.
\<close>

record mcp_result =
  attr_tool_name :: "string option"
  attr_success :: "bool option"
  attr_confidence :: "real option"

text \<open>
  The comprehension
  \<^verbatim>\<open>[r.confidence for r in results if hasattr(r, 'confidence') and r.success]\<close>:
  \<open>r.success\<close> is read with no \<open>hasattr\<close> before it, and raises on an object that has a
  confidence and no success flag.
\<close>

fun successful_confidences :: "mcp_result list \<Rightarrow> py_error + real list" where
  "successful_confidences [] = Inr []"
| "successful_confidences (r # rs) =
     (case attr_confidence r of
        None \<Rightarrow> successful_confidences rs
      | Some c \<Rightarrow>
         (case attr_success r of
            None \<Rightarrow> Inl (AttributeError ''success'')
          | Some s \<Rightarrow>
             (case successful_confidences rs of
                Inl e \<Rightarrow> Inl e
              | Inr cs \<Rightarrow> Inr (if s then c # cs else cs))))"

text \<open>\<^verbatim>\<open>sum(1 for r in results if hasattr(r, 'success') and r.success)\<close>.\<close>

definition count_successes :: "mcp_result list \<Rightarrow> nat" where
  "count_successes rs = length (filter (\<lambda>r. attr_success r = Some True) rs)"

subsection \<open>Strategy 3: consensus validation\<close>

text \<open>
  \<open>tool_results\<close> is a dictionary from tool names to lists of records; Python keeps the
  keys in insertion order, so it is an association list here.
\<close>

fun group_append :: "string \<Rightarrow> 'a \<Rightarrow> (string \<times> 'a list) list \<Rightarrow> (string \<times> 'a list) list" where
  "group_append k v [] = [(k, [v])]"
| "group_append k v ((k', vs) # rest) =
     (if k = k' then (k', vs @ [v]) # rest else (k', vs) # group_append k v rest)"

definition tool_name_of :: "string list \<Rightarrow> nat \<Rightarrow> mcp_result \<Rightarrow> string" where
  "tool_name_of pattern i r =
     (case attr_tool_name r of
        Some n \<Rightarrow> n
      | None \<Rightarrow> (if i < length pattern then pattern ! i else ''unknown''))"

fun group_by_tool ::
  "string list \<Rightarrow> nat \<Rightarrow> mcp_result list \<Rightarrow> (string \<times> mcp_result list) list
   \<Rightarrow> (string \<times> mcp_result list) list" where
  "group_by_tool pattern i [] tool_results = tool_results"
| "group_by_tool pattern i (r # rs) tool_results =
     group_by_tool pattern (Suc i) rs (group_append (tool_name_of pattern i r) r tool_results)"

fun consensus_scores_of :: "(string \<times> mcp_result list) list \<Rightarrow> py_error + real list" where
  "consensus_scores_of [] = Inr []"
| "consensus_scores_of ((tool_name, results) # rest) =
     (case successful_confidences results of
        Inl e \<Rightarrow> Inl e
      | Inr confidences \<Rightarrow>
         (case (if confidences = [] then Inr [] else
                  (case statistics_mean confidences of Inl e \<Rightarrow> Inl e | Inr m \<Rightarrow> Inr [m])) of
            Inl e \<Rightarrow> Inl e
          | Inr here \<Rightarrow>
             (case consensus_scores_of rest of
                Inl e \<Rightarrow> Inl e
              | Inr others \<Rightarrow> Inr (here @ others))))"

definition analyze_consensus_validation ::
  "mcp_result list \<Rightarrow> string list \<Rightarrow> py_error + strategy_result" where
  "analyze_consensus_validation mcp_results pattern =
     (if pattern = [] \<or> length mcp_results < 2 then
        Inr \<lparr>converged = False, strategy = CONSENSUS_VALIDATION, score = 0, metrics = [],
             reason = Literal ''Insufficient results for consensus validation''\<rparr>
      else
        (let tool_results = group_by_tool pattern 0 mcp_results [] in
         case consensus_scores_of tool_results of
           Inl e \<Rightarrow> Inl e
         | Inr consensus_scores \<Rightarrow>
            (if consensus_scores \<noteq> [] then
               (case statistics_mean consensus_scores of
                  Inl e \<Rightarrow> Inl e
                | Inr overall_consensus \<Rightarrow>
                   (case (if 1 < length consensus_scores \<and> 0 < overall_consensus
                          then (case statistics_stdev consensus_scores of
                                  Inl e \<Rightarrow> Inl e
                                | Inr sd \<Rightarrow> Inr (1 - sd / overall_consensus))
                          else Inr 1) of
                      Inl e \<Rightarrow> Inl e
                    | Inr consensus_stability \<Rightarrow>
                       Inr \<lparr>converged = (0.75 \<le> overall_consensus \<and> 0.8 \<le> consensus_stability),
                            strategy = CONSENSUS_VALIDATION,
                            score = overall_consensus * consensus_stability,
                            metrics = [(''tool_consensus'',
                                          Table (zip (map fst tool_results) consensus_scores)),
                                       (''overall_consensus'', Num overall_consensus),
                                       (''stability'', Num consensus_stability)],
                            reason = FString ''Consensus: {:.2f}, Stability: {:.2f}''
                                       [overall_consensus, consensus_stability]\<rparr>))
             else
               Inr \<lparr>converged = False, strategy = CONSENSUS_VALIDATION, score = 0, metrics = [],
                    reason = Literal ''No valid consensus data''\<rparr>)))"

subsection \<open>The analyzer's state\<close>

text \<open>
  One entry of \<open>self.pattern_performance\<close>, and the verdict dictionary. The verdict has
  two shapes: the one \<open>_create_convergence_result\<close> builds (with a \<open>'strategy'\<close> key and
  no vote) and the one \<open>_combine_convergence_strategies\<close> builds; a key the dictionary
  does not have is \<open>None\<close>.
\<close>

record pattern_perf =
  executions :: nat
  avg_confidence :: real
  success_rate :: real
  confidence_history :: "real list"

record verdict =
  v_converged :: bool
  v_confidence :: real
  v_reason :: reason_text
  v_recommendation :: string
  v_strategy :: "string option"
  combined_score :: "real option"
  convergence_votes :: "real option"
  primary_strategy :: "string option"
  strategy_details :: "(string \<times> strategy_result) list option"

record history_entry =
  h_pattern :: "string list"
  h_complexity :: string
  h_convergence_result :: verdict
  h_timestamp :: string

text \<open>
  \<open>pattern_performance\<close> is a dictionary keyed by the pattern key; its insertion order
  decides ties when the entries are sorted, so it is an association list (keys unique).
\<close>

record analyzer =
  base_threshold :: real
  convergence_history :: "history_entry list"
  pattern_performance :: "(string \<times> pattern_perf) list"

definition init_analyzer :: "real \<Rightarrow> analyzer" where
  "init_analyzer base = \<lparr>base_threshold = base, convergence_history = [],
                          pattern_performance = []\<rparr>"

definition new_perf :: pattern_perf where
  "new_perf = \<lparr>executions = 0, avg_confidence = 0, success_rate = 0, confidence_history = []\<rparr>"

text \<open>\<open>'-'.join(pattern)\<close> and the key \<open>f"{complexity}:{'-'.join(pattern)}"\<close>.\<close>

fun join :: "string \<Rightarrow> string list \<Rightarrow> string" where
  "join sep [] = []"
| "join sep [x] = x"
| "join sep (x # y # ys) = x @ sep @ join sep (y # ys)"

definition pattern_key :: "string \<Rightarrow> string list \<Rightarrow> string" where
  "pattern_key complexity pattern = complexity @ '':'' @ join ''-'' pattern"

text \<open>\<open>if key not in d: d[key] = v\<close> and \<open>d[key] = v\<close> on an insertion-ordered dictionary.\<close>

definition ensure_key :: "string \<Rightarrow> 'v \<Rightarrow> (string \<times> 'v) list \<Rightarrow> (string \<times> 'v) list" where
  "ensure_key k v d = (if map_of d k = None then d @ [(k, v)] else d)"

fun dict_set :: "string \<Rightarrow> 'v \<Rightarrow> (string \<times> 'v) list \<Rightarrow> (string \<times> 'v) list" where
  "dict_set k v [] = [(k, v)]"
| "dict_set k v ((k', v') # rest) =
     (if k = k' then (k', v) # rest else (k', v') # dict_set k v rest)"

subsection \<open>Strategy 4: adaptive learning\<close>

text \<open>
  The method writes a fresh entry into \<open>self.pattern_performance\<close> before it reads the
  mean, so it returns the analyzer with its result (or with the exception it raised).
\<close>

definition analyze_adaptive_learning ::
  "analyzer \<Rightarrow> real list \<Rightarrow> string list \<Rightarrow> string
   \<Rightarrow> (py_error + strategy_result) \<times> analyzer" where
  "analyze_adaptive_learning self confidences pattern complexity =
     (if pattern = [] then
        (Inr \<lparr>converged = False, strategy = ADAPTIVE_LEARNING, score = 0, metrics = [],
              reason = Literal ''No pattern specified for learning''\<rparr>, self)
      else
        (let key = pattern_key complexity pattern;
             self' = self\<lparr>pattern_performance :=
                             ensure_key key new_perf (pattern_performance self)\<rparr>
         in case statistics_mean confidences of
              Inl e \<Rightarrow> (Inl e, self')
            | Inr current_confidence \<Rightarrow>
               (case map_of (pattern_performance self') key of
                  None \<Rightarrow> (Inl (KeyError key), self')
                | Some historical_data \<Rightarrow>
                   (if 0 < executions historical_data then
                      (let performance_delta = current_confidence - avg_confidence historical_data;
                           adaptive_threshold = min 0.9 (avg_confidence historical_data + 0.1)
                       in if adaptive_threshold = 0 then (Inl ZeroDivisionError, self')
                          else
                            (Inr \<lparr>converged = (adaptive_threshold \<le> current_confidence),
                                  strategy = ADAPTIVE_LEARNING,
                                  score = current_confidence / adaptive_threshold,
                                  metrics =
                                    [(''current_confidence'', Num current_confidence),
                                     (''historical_avg'', Num (avg_confidence historical_data)),
                                     (''performance_delta'', Num performance_delta),
                                     (''adaptive_threshold'', Num adaptive_threshold),
                                     (''executions'', Count (executions historical_data))],
                                  reason = FString
                                    ''Adaptive threshold: {:.2f}, Performance delta: {:+.3f}''
                                    [adaptive_threshold, performance_delta]\<rparr>, self'))
                    else
                      (Inr \<lparr>converged = (base_threshold self \<le> current_confidence),
                            strategy = ADAPTIVE_LEARNING,
                            score = current_confidence, metrics = [],
                            reason = Literal
                              ''First execution for this pattern - using base threshold''\<rparr>,
                       self')))))"

subsection \<open>Combination\<close>

definition create_convergence_result ::
  "bool \<Rightarrow> string \<Rightarrow> ConvergenceStrategy \<Rightarrow> verdict" where
  "create_convergence_result conv why strat =
     \<lparr>v_converged = conv, v_confidence = 0, v_reason = Literal why,
      v_recommendation =
        ''System needs attention - review input data and tool configuration'',
      v_strategy = Some (strategy_value strat),
      combined_score = None, convergence_votes = None, primary_strategy = None,
      strategy_details = None\<rparr>"

definition generate_convergence_recommendation :: "bool \<Rightarrow> real \<Rightarrow> string" where
  "generate_convergence_recommendation conv sc =
     (if conv then
        (if 0.9 \<le> sc then
           ''Excellent convergence achieved - consider reducing future pattern complexity for efficiency''
         else if 0.8 \<le> sc then ''Good convergence achieved - pattern is well-optimized''
         else ''Convergence achieved but with room for improvement - consider pattern refinement'')
      else
        (if 0.6 \<le> sc then ''Near convergence - one additional iteration may achieve convergence''
         else if 0.4 \<le> sc then
           ''Moderate progress - continue with current pattern or consider tool adjustment''
         else ''Low convergence - consider alternative reasoning pattern or tool selection''))"

fun weights :: "ConvergenceStrategy \<Rightarrow> real option" where
  "weights CONFIDENCE_THRESHOLD = Some 0.4"
| "weights DIMINISHING_RETURNS = Some 0.2"
| "weights CONSENSUS_VALIDATION = Some 0.25"
| "weights ADAPTIVE_LEARNING = Some 0.15"

text \<open>
  The loop over \<open>valid_strategies\<close>, with its three accumulators \<open>weighted_scores\<close>,
  \<open>convergence_votes\<close> and \<open>strategy_details\<close>.
\<close>

fun combine_loop ::
  "strategy_result list \<Rightarrow> real list \<times> real \<times> (string \<times> strategy_result) list
   \<Rightarrow> real list \<times> real \<times> (string \<times> strategy_result) list" where
  "combine_loop [] acc = acc"
| "combine_loop (s # ss) (weighted_scores, votes, details) =
     (let weight = dict_get weights (strategy s) 0.1
      in combine_loop ss
           (weighted_scores @ [score s * weight],
            (if converged s then votes + weight else votes),
            dict_set (strategy_value (strategy s)) s details))"

text \<open>\<open>max(xs, key=score)\<close>: the first element among those of the highest score.\<close>

fun max_by_score :: "strategy_result \<Rightarrow> strategy_result list \<Rightarrow> strategy_result" where
  "max_by_score best [] = best"
| "max_by_score best (s # ss) = max_by_score (if score best < score s then s else best) ss"

definition combine_convergence_strategies ::
  "strategy_result \<Rightarrow> strategy_result \<Rightarrow> strategy_result \<Rightarrow> strategy_result \<Rightarrow> verdict" where
  "combine_convergence_strategies confidence_analysis returns_analysis consensus_analysis
       adaptive_analysis =
     (let strategies = [confidence_analysis, returns_analysis, consensus_analysis,
                        adaptive_analysis];
          valid_strategies = filter (\<lambda>s. 0 < score s) strategies
      in case valid_strategies of
           [] \<Rightarrow> create_convergence_result False ''No valid convergence strategies''
                   CONFIDENCE_THRESHOLD
         | v # vs \<Rightarrow>
            (case combine_loop valid_strategies ([], 0, []) of
               (weighted_scores, votes, details) \<Rightarrow>
                 (let combined = sum_list weighted_scores;
                      conv = (0.5 \<le> votes);
                      primary = max_by_score v vs
                  in \<lparr>v_converged = conv, v_confidence = combined,
                      v_reason = FString
                        (''Combined analysis: {:.1f}/1.0 vote weight, primary: ''
                           @ strategy_value (strategy primary)) [votes],
                      v_recommendation = generate_convergence_recommendation conv combined,
                      v_strategy = None,
                      combined_score = Some combined, convergence_votes = Some votes,
                      primary_strategy = Some (strategy_value (strategy primary)),
                      strategy_details = Some details\<rparr>)))"

subsection \<open>Learning from a run\<close>

text \<open>The slice \<open>xs[-n:]\<close> for a positive \<open>n\<close>.\<close>

definition last_n :: "nat \<Rightarrow> 'a list \<Rightarrow> 'a list" where
  "last_n n xs = drop (length xs - n) xs"

text \<open>
  \<open>sorted(d.items(), key=..., reverse=True)[:3]\<close>: Python's sort is stable, also when
  reversed, so entries of equal average keep their order in the dictionary.
\<close>

definition best_patterns :: "(string \<times> pattern_perf) list \<Rightarrow> (string \<times> pattern_perf) list" where
  "best_patterns items =
     take 3 (rev (sort_key (\<lambda>kv. avg_confidence (snd kv)) (rev items)))"

text \<open>
  The body of \<open>_update_convergence_history\<close> runs on into the statements that build the
  learning insights (the \<open>def\<close> line that should separate them is missing from the
  source), so after the update it unpacks \<open>pattern_key.split(':', 1)\<close> for each of the
  three best patterns, which raises for a key without a colon. The dictionary it then
  returns is discarded by the caller and is not modelled.
\<close>

definition update_convergence_history ::
  "analyzer \<Rightarrow> verdict \<Rightarrow> string list \<Rightarrow> string \<Rightarrow> real list \<Rightarrow> py_error option \<times> analyzer" where
  "update_convergence_history self convergence_result pattern complexity confidences =
     (if pattern = [] then (None, self)
      else
        (let key = pattern_key complexity pattern;
             perf = ensure_key key new_perf (pattern_performance self);
             self1 = self\<lparr>pattern_performance := perf\<rparr>
         in case map_of perf key of
              None \<Rightarrow> (Some (KeyError key), self1)
            | Some perf_data \<Rightarrow>
               (case statistics_mean confidences of
                  Inl e \<Rightarrow> (Some e, self1)
                | Inr current_avg \<Rightarrow>
                   (let history = confidence_history perf_data @ [current_avg]
                    in case statistics_mean history of
                         Inl e \<Rightarrow> (Some e, self1)
                       | Inr avg \<Rightarrow>
                          (let perf_data' = perf_data
                                 \<lparr>executions := executions perf_data + 1,
                                  avg_confidence := avg,
                                  confidence_history :=
                                    (if 50 < length history then last_n 50 history
                                     else history)\<rparr>;
                               perf' = dict_set key perf_data' perf;
                               entries = convergence_history self
                                 @ [\<lparr>h_pattern = pattern, h_complexity = complexity,
                                      h_convergence_result = convergence_result,
                                      h_timestamp = ''2025-08-04T04:45:00Z''\<rparr>];
                               self2 = self\<lparr>pattern_performance := perf',
                                           convergence_history :=
                                             (if 100 < length entries then last_n 100 entries
                                              else entries)\<rparr>
                           in if list_all (\<lambda>kv. CHR '':'' \<in> set (fst kv)) (best_patterns perf')
                              then (None, self2)
                              else (Some (ValueError
                                      ''not enough values to unpack (expected 2, got 1)''),
                                    self2))))))"

subsection \<open>The entry point\<close>

text \<open>
  \<open>pattern\<close> defaults to \<open>None\<close> in the source; every use of it asks \<open>not pattern\<close>
  first, so \<open>None\<close> and the empty list behave alike and both are \<open>[]\<close> here.
  \<open>iteration\<close> is a parameter the body never reads.
\<close>

definition analyze_convergence ::
  "analyzer \<Rightarrow> mcp_result list \<Rightarrow> nat \<Rightarrow> string \<Rightarrow> string list
   \<Rightarrow> (py_error + verdict) \<times> analyzer" where
  "analyze_convergence self mcp_results iteration complexity pattern =
     (if mcp_results = [] then
        (Inr (create_convergence_result False ''No results to analyze'' CONFIDENCE_THRESHOLD),
         self)
      else
        (case successful_confidences mcp_results of
           Inl e \<Rightarrow> (Inl e, self)
         | Inr confidences \<Rightarrow>
            (let rate = real (count_successes mcp_results) / real (length mcp_results)
             in if confidences = [] then
                  (Inr (create_convergence_result False
                          ''No successful results with confidence'' CONFIDENCE_THRESHOLD),
                   self)
                else
                  (case analyze_confidence_threshold (base_threshold self) confidences rate
                          complexity of
                     Inl e \<Rightarrow> (Inl e, self)
                   | Inr confidence_analysis \<Rightarrow>
                      (case analyze_diminishing_returns confidences of
                         Inl e \<Rightarrow> (Inl e, self)
                       | Inr returns_analysis \<Rightarrow>
                          (case analyze_consensus_validation mcp_results pattern of
                             Inl e \<Rightarrow> (Inl e, self)
                           | Inr consensus_analysis \<Rightarrow>
                              (case analyze_adaptive_learning self confidences pattern
                                      complexity of
                                 (Inl e, self1) \<Rightarrow> (Inl e, self1)
                               | (Inr adaptive_analysis, self1) \<Rightarrow>
                                  (let final_convergence =
                                         combine_convergence_strategies confidence_analysis
                                           returns_analysis consensus_analysis
                                           adaptive_analysis
                                   in case update_convergence_history self1 final_convergence
                                             pattern complexity confidences of
                                        (Some e, self2) \<Rightarrow> (Inl e, self2)
                                      | (None, self2) \<Rightarrow>
                                          (Inr final_convergence, self2)))))))))"

section \<open>The strategies in the arithmetic of the code\<close>

text \<open>
  The definitions above compute in exact arithmetic. A decision at a threshold, and a
  score in its last digit, depend on the arithmetic of the code: Python's floats are
  binary floating-point numbers, every decimal literal stands for the nearest of them,
  and every \<open>+\<close>, \<open>-\<close>, \<open>*\<close> and \<open>/\<close> returns the exact result rounded. Here the strategies
  are given over the rounding function \<open>rnd\<close> of the floats, which is a parameter.
  \<open>statistics.mean\<close> adds the numbers exactly and rounds the quotient once, and
  \<open>statistics.stdev\<close> (Python 3.11) rounds the square root of the exact sample
  variance once. The numbers 0 and 1 are floats as they are. With the identity for
  \<open>rnd\<close> these are the definitions above.
\<close>

definition float_mean :: "(real \<Rightarrow> real) \<Rightarrow> real list \<Rightarrow> py_error + real" where
  "float_mean rnd xs = (if xs = [] then Inl StatisticsError else Inr (rnd (arith_mean xs)))"

definition float_stdev :: "(real \<Rightarrow> real) \<Rightarrow> real list \<Rightarrow> py_error + real" where
  "float_stdev rnd xs =
     (if length xs < 2 then Inl StatisticsError else Inr (rnd (sample_stdev xs)))"

fun float_information_gains :: "(real \<Rightarrow> real) \<Rightarrow> real list \<Rightarrow> real list" where
  "float_information_gains rnd (a # b # cs) =
     max 0 (rnd (b - a)) # float_information_gains rnd (b # cs)"
| "float_information_gains rnd cs = []"

definition float_diminishing_returns ::
  "(real \<Rightarrow> real) \<Rightarrow> real list \<Rightarrow> py_error + strategy_result" where
  "float_diminishing_returns rnd confidences =
     (if length confidences < 3 then
        Inr \<lparr>converged = False, strategy = DIMINISHING_RETURNS, score = 0,
             metrics = [],
             reason = Literal ''Insufficient data for diminishing returns analysis''\<rparr>
      else
        (let gains = float_information_gains rnd confidences in
         if 2 \<le> length gains then
           (let recent_trend = last_two gains;
                diminishing = list_all (\<lambda>g. g \<le> rnd 0.05) recent_trend
            in case float_mean rnd gains of
                 Inl e \<Rightarrow> Inl e
               | Inr avg_gain \<Rightarrow>
                   (let conv = (diminishing \<and> avg_gain < rnd 0.1)
                    in Inr \<lparr>converged = conv, strategy = DIMINISHING_RETURNS,
                            score = (if conv then rnd (1 - avg_gain) else avg_gain),
                            metrics = [(''information_gains'', Nums gains),
                                       (''average_gain'', Num avg_gain),
                                       (''recent_trend'', Nums recent_trend)],
                            reason = FString ''Information gain trend: {}, avg: {:.3f}''
                                       (recent_trend @ [avg_gain])\<rparr>))
         else
           Inr \<lparr>converged = False, strategy = DIMINISHING_RETURNS, score = rnd 0.5,
                metrics = [], reason = Literal ''Insufficient trend data''\<rparr>))"

definition float_thresholds :: "(real \<Rightarrow> real) \<Rightarrow> string \<Rightarrow> real option" where
  "float_thresholds rnd =
     [''simple'' \<mapsto> rnd 0.65, ''medium'' \<mapsto> rnd 0.75, ''complex'' \<mapsto> rnd 0.80,
      ''expert'' \<mapsto> rnd 0.85]"

definition float_confidence_threshold ::
  "(real \<Rightarrow> real) \<Rightarrow> real \<Rightarrow> real list \<Rightarrow> real \<Rightarrow> string \<Rightarrow> py_error + strategy_result" where
  "float_confidence_threshold rnd base confidences rate complexity =
     (let threshold = dict_get (float_thresholds rnd) complexity base in
      case float_mean rnd confidences of
        Inl e \<Rightarrow> Inl e
      | Inr avg \<Rightarrow>
         (case (if 1 < length confidences then float_stdev rnd confidences else Inr 0) of
            Inl e \<Rightarrow> Inl e
          | Inr confidence_std \<Rightarrow>
             (let confidence_stability =
                    (if 0 < avg then rnd (1 - min (rnd (confidence_std / avg)) 1) else 0);
                  conv = (threshold \<le> avg \<and> rnd 0.8 \<le> rate
                          \<and> rnd 0.7 \<le> confidence_stability)
              in Inr \<lparr>converged = conv, strategy = CONFIDENCE_THRESHOLD,
                      score = rnd (rnd (avg * rate) * confidence_stability),
                      metrics = [(''avg_confidence'', Num avg),
                                 (''threshold'', Num threshold),
                                 (''success_rate'', Num rate),
                                 (''stability'', Num confidence_stability)],
                      reason = FString
                        ''Confidence: {:.2f} vs {:.2f}, Success: {:.1%}, Stability: {:.2f}''
                        [avg, threshold, rate, confidence_stability]\<rparr>)))"

definition float_adaptive_learning ::
  "(real \<Rightarrow> real) \<Rightarrow> analyzer \<Rightarrow> real list \<Rightarrow> string list \<Rightarrow> string
   \<Rightarrow> (py_error + strategy_result) \<times> analyzer" where
  "float_adaptive_learning rnd self confidences pattern complexity =
     (if pattern = [] then
        (Inr \<lparr>converged = False, strategy = ADAPTIVE_LEARNING, score = 0, metrics = [],
              reason = Literal ''No pattern specified for learning''\<rparr>, self)
      else
        (let key = pattern_key complexity pattern;
             self' = self\<lparr>pattern_performance :=
                             ensure_key key new_perf (pattern_performance self)\<rparr>
         in case float_mean rnd confidences of
              Inl e \<Rightarrow> (Inl e, self')
            | Inr current_confidence \<Rightarrow>
               (case map_of (pattern_performance self') key of
                  None \<Rightarrow> (Inl (KeyError key), self')
                | Some historical_data \<Rightarrow>
                   (if 0 < executions historical_data then
                      (let performance_delta =
                             rnd (current_confidence - avg_confidence historical_data);
                           adaptive_threshold =
                             min (rnd 0.9) (rnd (avg_confidence historical_data + rnd 0.1))
                       in if adaptive_threshold = 0 then (Inl ZeroDivisionError, self')
                          else
                            (Inr \<lparr>converged = (adaptive_threshold \<le> current_confidence),
                                  strategy = ADAPTIVE_LEARNING,
                                  score = rnd (current_confidence / adaptive_threshold),
                                  metrics =
                                    [(''current_confidence'', Num current_confidence),
                                     (''historical_avg'', Num (avg_confidence historical_data)),
                                     (''performance_delta'', Num performance_delta),
                                     (''adaptive_threshold'', Num adaptive_threshold),
                                     (''executions'', Count (executions historical_data))],
                                  reason = FString
                                    ''Adaptive threshold: {:.2f}, Performance delta: {:+.3f}''
                                    [adaptive_threshold, performance_delta]\<rparr>, self'))
                    else
                      (Inr \<lparr>converged = (base_threshold self \<le> current_confidence),
                            strategy = ADAPTIVE_LEARNING,
                            score = current_confidence, metrics = [],
                            reason = Literal
                              ''First execution for this pattern - using base threshold''\<rparr>,
                       self')))))"

section \<open>Strings\<close>

text \<open>
  Queries are strings of bytes. \<open>str.lower()\<close> and the \<open>re.I\<close> flag are modelled on the
  ASCII letters, which is where Python's case folding and this one agree; the keywords
  and patterns of the source are lower-case ASCII.
\<close>

definition lower_char :: "char \<Rightarrow> char" where
  "lower_char c =
     (case map_of (zip ''ABCDEFGHIJKLMNOPQRSTUVWXYZ'' ''abcdefghijklmnopqrstuvwxyz'') c of
        Some l \<Rightarrow> l
      | None \<Rightarrow> c)"

definition lower :: "string \<Rightarrow> string" where
  "lower s = map lower_char s"





section \<open>hrm_core.py\<close>

subsection \<open>ComplexityAssessor\<close>




subsection \<open>PatternSelector\<close>

record pattern_step =
  tool :: string
  level :: string
  purpose :: string

definition selector_patterns :: "string \<Rightarrow> pattern_step list option" where
  "selector_patterns =
     [''simple'' \<mapsto>
        [\<lparr>tool = ''brain_recall'', level = ''HIGH'', purpose = ''Retrieve existing knowledge''\<rparr>],
      ''medium'' \<mapsto>
        [\<lparr>tool = ''brain_recall'', level = ''HIGH'', purpose = ''Load context''\<rparr>,
         \<lparr>tool = ''web_search'', level = ''LOW'', purpose = ''Gather information''\<rparr>,
         \<lparr>tool = ''brain_remember'', level = ''HIGH'', purpose = ''Store synthesis''\<rparr>],
      ''complex'' \<mapsto>
        [\<lparr>tool = ''brain_recall'', level = ''HIGH'', purpose = ''Deep context loading''\<rparr>,
         \<lparr>tool = ''sequential_thinking'', level = ''LOW'', purpose = ''Problem decomposition''\<rparr>,
         \<lparr>tool = ''web_search'', level = ''HIGH'', purpose = ''Research validation''\<rparr>,
         \<lparr>tool = ''reasoning_tools'', level = ''LOW'', purpose = ''Multi-perspective analysis''\<rparr>,
         \<lparr>tool = ''brain_remember'', level = ''HIGH'', purpose = ''Comprehensive storage''\<rparr>],
      ''expert'' \<mapsto>
        [\<lparr>tool = ''brain_recall'', level = ''HIGH'', purpose = ''Context + breakthroughs''\<rparr>,
         \<lparr>tool = ''sequential_thinking'', level = ''LOW'', purpose = ''Initial analysis''\<rparr>,
         \<lparr>tool = ''web_search'', level = ''HIGH'', purpose = ''Current state research''\<rparr>,
         \<lparr>tool = ''reasoning_tools'', level = ''LOW'', purpose = ''Deep reasoning''\<rparr>,
         \<lparr>tool = ''sequential_thinking'', level = ''LOW'', purpose = ''Synthesis validation''\<rparr>,
         \<lparr>tool = ''brain_remember'', level = ''HIGH'', purpose = ''Breakthrough storage''\<rparr>]]"

text \<open>
  \<open>self.execution_patterns.get(complexity, self.execution_patterns['medium'])\<close>: the
  default is evaluated first and raises \<open>KeyError\<close> if the table has no medium entry.
\<close>

definition selector_get_pattern :: "string \<Rightarrow> py_error + pattern_step list" where
  "selector_get_pattern complexity =
     (case selector_patterns ''medium'' of
        None \<Rightarrow> Inl (KeyError ''medium'')
      | Some dflt \<Rightarrow> Inr (dict_get selector_patterns complexity dflt))"

section \<open>hrm_automation_engine.py\<close>

subsection \<open>ComplexityAnalyzer\<close>




subsection \<open>PatternOrchestrator\<close>

definition execution_patterns :: "string \<Rightarrow> string list option" where
  "execution_patterns =
     [''simple'' \<mapsto> [''brain_recall''],
      ''medium'' \<mapsto> [''brain_recall'', ''web_search'', ''brain_remember''],
      ''complex'' \<mapsto> [''brain_recall'', ''sequential_thinking'', ''web_search'',
                     ''reasoning_tools'', ''brain_remember''],
      ''expert'' \<mapsto> [''brain_recall'', ''sequential_thinking'', ''web_search'',
                    ''reasoning_tools'', ''brain_remember'', ''brain_recall'']]"

definition get_pattern :: "string \<Rightarrow> py_error + string list" where
  "get_pattern complexity =
     (case execution_patterns ''medium'' of
        None \<Rightarrow> Inl (KeyError ''medium'')
      | Some dflt \<Rightarrow> Inr (dict_get execution_patterns complexity dflt))"

subsection \<open>Results of tool calls\<close>

datatype ExecutionPhase = ANALYSIS | ORCHESTRATION | CONVERGENCE | SYNTHESIS

text \<open>
  \<open>result.data\<close> is read only through \<open>'final_answer' in data\<close>, \<open>data['final_answer']\<close>,
  \<open>'search_confidence' in data\<close> and \<open>str(data)\<close>. A payload keeps what those read: the
  final answer (a string wherever the source builds one), the search confidence, and
  the text \<open>str(data)\<close>. \<open>None\<close> stands for a \<open>data\<close> that is \<open>None\<close>, empty or not a
  dictionary.
\<close>

record payload =
  final_answer :: "string option"
  search_confidence :: "real option"
  rendered :: string

record MCPExecutionResult =
  tool_name :: string
  success :: bool
  data :: "payload option"
  confidence :: real
  execution_time :: real
  phase :: ExecutionPhase
  error_message :: "string option"
  retry_count :: nat

subsection \<open>The tool interface\<close>











subsection \<open>The retrying orchestrator\<close>








subsection \<open>ConvergenceAnalyzer and InsightGenerator\<close>






subsection \<open>AutomatedExecutionEngine\<close>






section \<open>Definitions used in the statements\<close>


text \<open>The weight the combination looks up for a strategy result.\<close>

definition weight_of :: "strategy_result \<Rightarrow> real" where
  "weight_of s = dict_get weights (strategy s) 0.1"


definition sample_result :: "ConvergenceStrategy \<Rightarrow> bool \<Rightarrow> real \<Rightarrow> strategy_result" where
  "sample_result t c x =
     \<lparr>converged = c, strategy = t, score = x, metrics = [], reason = Literal ''sample''\<rparr>"

text \<open>
  The inputs the data model admits: a record that carries a confidence carries a
  success flag and a confidence in \<open>[0, 1]\<close>, and no historical average is negative.
\<close>

definition sane_records :: "mcp_result list \<Rightarrow> bool" where
  "sane_records rs =
     list_all (\<lambda>r. case attr_confidence r of
                      None \<Rightarrow> True
                    | Some c \<Rightarrow> attr_success r \<noteq> None \<and> 0 \<le> c \<and> c \<le> 1) rs"

definition sane_store :: "analyzer \<Rightarrow> bool" where
  "sane_store self = list_all (\<lambda>kv. 0 \<le> avg_confidence (snd kv)) (pattern_performance self)"

definition sample_record :: "string \<Rightarrow> bool \<Rightarrow> real \<Rightarrow> mcp_result" where
  "sample_record n s c = \<lparr>attr_tool_name = Some n, attr_success = Some s, attr_confidence = Some c\<rparr>"



fun alternates :: "'a list \<Rightarrow> bool" where
  "alternates (a # b # xs) = (a \<noteq> b \<and> alternates (b # xs))"
| "alternates xs = True"







section \<open>Properties of the convergence analyzer\<close>

subsection \<open>Diminishing returns\<close>

lemma length_information_gains: "length (information_gains cs) = length cs - 1"
  by (induction cs rule: information_gains.induct) auto






subsection \<open>Confidence threshold\<close>






subsection \<open>Combination\<close>

lemma weight_of_table:
  "weight_of s = (case strategy s of CONFIDENCE_THRESHOLD \<Rightarrow> (0.40::real) | DIMINISHING_RETURNS \<Rightarrow> 0.20
                   | CONSENSUS_VALIDATION \<Rightarrow> 0.25 | ADAPTIVE_LEARNING \<Rightarrow> 0.15)"
  by (cases "strategy s") (simp_all add: weight_of_def dict_get_def)

lemma combine_loop_sums:
  "\<exists>details'. combine_loop ss (ws, votes, details) =
     (ws @ map (\<lambda>s. score s * weight_of s) ss,
      votes + sum_list (map (\<lambda>s. if converged s then weight_of s else 0) ss),
      details')"
proof (induction ss arbitrary: ws votes details)
  case Nil
  then show ?case by simp
next
  case (Cons s ss)
  show ?case
    using Cons.IH [of "ws @ [score s * weight_of s]"
        "if converged s then votes + weight_of s else votes"
        "dict_set (strategy_value (strategy s)) s details"]
    by (auto simp: Let_def weight_of_def)
qed

lemma max_by_score_split:
  "\<exists>pre post. b # ss = pre @ max_by_score b ss # post
     \<and> (\<forall>s\<in>set pre. score s < score (max_by_score b ss))
     \<and> (\<forall>s\<in>set post. score s \<le> score (max_by_score b ss))"
proof (induction ss arbitrary: b)
  case Nil
  show ?case by (intro exI [of _ "[]"]) simp
next
  case (Cons s ss)
  define b' where "b' = (if score b < score s then s else b)"
  define p where "p = max_by_score b' ss"
  from Cons.IH [of b'] obtain pre post where
    sp: "b' # ss = pre @ p # post"
    and lt: "\<forall>x\<in>set pre. score x < score p"
    and le: "\<forall>x\<in>set post. score x \<le> score p"
    unfolding p_def by blast
  have p: "max_by_score b (s # ss) = p" by (simp add: p_def b'_def)
  have ble: "score b' \<le> score p"
  proof (cases pre)
    case Nil
    with sp have "b' = p" by simp
    then show ?thesis by simp
  next
    case (Cons a pre')
    with sp have "b' \<in> set pre" by simp
    with lt show ?thesis by (metis less_imp_le)
  qed
  show ?case
  proof (cases "score b < score s")
    case True
    then have b's: "b' = s" by (simp add: b'_def)
    have "b # s # ss = (b # pre) @ p # post" using sp b's by simp
    moreover have "\<forall>x\<in>set (b # pre). score x < score p"
      using lt ble True b's by auto
    ultimately show ?thesis unfolding p using le by blast
  next
    case False
    then have b'b: "b' = b" by (simp add: b'_def)
    show ?thesis
    proof (cases pre)
      case Nil
      with sp b'b have pb: "p = b" and ss: "ss = post" by auto
      have "b # s # ss = [] @ p # (s # post)" using pb ss by simp
      moreover have "\<forall>x\<in>set (s # post). score x \<le> score p"
        using le False pb by auto
      moreover have "\<forall>x\<in>set []. score x < score p" by simp
      ultimately show ?thesis unfolding p by blast
    next
      case (Cons a pre')
      with sp b'b have a: "a = b" and ss: "ss = pre' @ p # post" by auto
      have "b # s # ss = (b # s # pre') @ p # post" using ss by simp
      moreover have "\<forall>x\<in>set (b # s # pre'). score x < score p"
        using lt Cons a False by auto
      ultimately show ?thesis unfolding p using le by blast
    qed
  qed
qed

text \<open>
  Claim C1. Only the strategies of positive score take part. The vote is the sum of the
  weights (0.40, 0.20, 0.25, 0.15) of those that report convergence, the combined score
  is the sum of weight times score, the verdict converges exactly when the vote is at
  least 0.5, and the primary strategy is the first participant of the highest score.
  With no participant the result is the fixed non-converged verdict, with no vote.
\<close>

theorem combine_spec:
  "(let valid = filter (\<lambda>s. 0 < score s) [s1, s2, s3, s4];
        w = (\<lambda>t. case t of CONFIDENCE_THRESHOLD \<Rightarrow> (0.40::real) | DIMINISHING_RETURNS \<Rightarrow> 0.20
                   | CONSENSUS_VALIDATION \<Rightarrow> 0.25 | ADAPTIVE_LEARNING \<Rightarrow> 0.15);
        votes = (\<Sum>s\<leftarrow>valid. if converged s then w (strategy s) else 0);
        v = combine_convergence_strategies s1 s2 s3 s4
    in (valid = [] \<longrightarrow>
          v = create_convergence_result False ''No valid convergence strategies''
                CONFIDENCE_THRESHOLD
          \<and> \<not> v_converged v \<and> v_confidence v = 0
          \<and> convergence_votes v = None \<and> combined_score v = None)
     \<and> (valid \<noteq> [] \<longrightarrow>
          convergence_votes v = Some votes
          \<and> combined_score v = Some (\<Sum>s\<leftarrow>valid. w (strategy s) * score s)
          \<and> v_converged v = (0.5 \<le> votes)
          \<and> (\<exists>pre p post. valid = pre @ p # post
                \<and> primary_strategy v = Some (strategy_value (strategy p))
                \<and> (\<forall>s\<in>set pre. score s < score p)
                \<and> (\<forall>s\<in>set post. score s \<le> score p))))"
proof -
  define valid where "valid = filter (\<lambda>s. 0 < score s) [s1, s2, s3, s4]"
  define v where "v = combine_convergence_strategies s1 s2 s3 s4"
  have empty: "v = create_convergence_result False ''No valid convergence strategies''
                CONFIDENCE_THRESHOLD
          \<and> \<not> v_converged v \<and> v_confidence v = 0
          \<and> convergence_votes v = None \<and> combined_score v = None" if "valid = []"
    using that unfolding v_def combine_convergence_strategies_def valid_def [symmetric] Let_def
    by (simp add: create_convergence_result_def)
  have nonempty: "convergence_votes v
            = Some (\<Sum>s\<leftarrow>valid. if converged s then weight_of s else 0)
          \<and> combined_score v = Some (\<Sum>s\<leftarrow>valid. weight_of s * score s)
          \<and> v_converged v = (0.5 \<le> (\<Sum>s\<leftarrow>valid. if converged s then weight_of s else 0))
          \<and> (\<exists>pre p post. valid = pre @ p # post
                \<and> primary_strategy v = Some (strategy_value (strategy p))
                \<and> (\<forall>s\<in>set pre. score s < score p)
                \<and> (\<forall>s\<in>set post. score s \<le> score p))" if ne: "valid \<noteq> []"
  proof -
    from ne obtain a as where va: "valid = a # as" by (cases valid) auto
    obtain details where cl: "combine_loop valid ([], 0, []) =
        (map (\<lambda>s. score s * weight_of s) valid,
         sum_list (map (\<lambda>s. if converged s then weight_of s else 0) valid), details)"
      using combine_loop_sums [of valid "[]" 0 "[]"] by auto
    have comm: "map (\<lambda>s. score s * weight_of s) valid = map (\<lambda>s. weight_of s * score s) valid"
      by (simp add: mult.commute)
    from max_by_score_split [of a as] obtain pre post where
      sp: "valid = pre @ max_by_score a as # post"
        "\<forall>s\<in>set pre. score s < score (max_by_score a as)"
        "\<forall>s\<in>set post. score s \<le> score (max_by_score a as)"
      unfolding va by blast
    have eqs: "convergence_votes v
            = Some (\<Sum>s\<leftarrow>valid. if converged s then weight_of s else 0)"
      "combined_score v = Some (\<Sum>s\<leftarrow>valid. weight_of s * score s)"
      "v_converged v = (0.5 \<le> (\<Sum>s\<leftarrow>valid. if converged s then weight_of s else 0))"
      "primary_strategy v = Some (strategy_value (strategy (max_by_score a as)))"
      unfolding v_def combine_convergence_strategies_def valid_def [symmetric] Let_def
      using cl unfolding va by (simp_all del: combine_loop.simps add: ac_simps)
    show ?thesis using eqs sp by blast
  qed
  show ?thesis
    using empty nonempty
    unfolding Let_def valid_def [symmetric] v_def [symmetric] weight_of_table
    by blast
qed

theorem combine_spec_witness:
  "filter (\<lambda>s. 0 < score s)
     [sample_result CONFIDENCE_THRESHOLD True 0.88, sample_result DIMINISHING_RETURNS False 0,
      sample_result CONSENSUS_VALIDATION True 0.9, sample_result ADAPTIVE_LEARNING False 0.5]
     \<noteq> []
   \<and> convergence_votes (combine_convergence_strategies
        (sample_result CONFIDENCE_THRESHOLD True 0.88) (sample_result DIMINISHING_RETURNS False 0)
        (sample_result CONSENSUS_VALIDATION True 0.9) (sample_result ADAPTIVE_LEARNING False 0.5))
      = Some 0.65
   \<and> combined_score (combine_convergence_strategies
        (sample_result CONFIDENCE_THRESHOLD True 0.88) (sample_result DIMINISHING_RETURNS False 0)
        (sample_result CONSENSUS_VALIDATION True 0.9) (sample_result ADAPTIVE_LEARNING False 0.5))
      = Some 0.652
   \<and> v_converged (combine_convergence_strategies
        (sample_result CONFIDENCE_THRESHOLD True 0.88) (sample_result DIMINISHING_RETURNS False 0)
        (sample_result CONSENSUS_VALIDATION True 0.9) (sample_result ADAPTIVE_LEARNING False 0.5))
   \<and> filter (\<lambda>s. 0 < score s)
        [sample_result CONFIDENCE_THRESHOLD False 0, sample_result DIMINISHING_RETURNS False 0,
         sample_result CONSENSUS_VALIDATION False 0, sample_result ADAPTIVE_LEARNING False 0]
      = []
   \<and> convergence_votes (combine_convergence_strategies
        (sample_result CONFIDENCE_THRESHOLD False 0) (sample_result DIMINISHING_RETURNS False 0)
        (sample_result CONSENSUS_VALIDATION False 0) (sample_result ADAPTIVE_LEARNING False 0))
      = None"
  using combine_spec [of "sample_result CONFIDENCE_THRESHOLD True 0.88"
          "sample_result DIMINISHING_RETURNS False 0" "sample_result CONSENSUS_VALIDATION True 0.9"
          "sample_result ADAPTIVE_LEARNING False 0.5"]
        combine_spec [of "sample_result CONFIDENCE_THRESHOLD False 0"
          "sample_result DIMINISHING_RETURNS False 0" "sample_result CONSENSUS_VALIDATION False 0"
          "sample_result ADAPTIVE_LEARNING False 0"]
  by (simp add: Let_def sample_result_def create_convergence_result_def)

subsection \<open>Adaptive learning\<close>

lemma map_of_ensure_key:
  "map_of (ensure_key k v d) k = (case map_of d k of None \<Rightarrow> Some v | Some x \<Rightarrow> Some x)"
  by (auto simp: ensure_key_def map_add_def split: option.splits)



subsection \<open>Records with no successful confidence\<close>

lemma successful_confidences_flagged:
  "\<forall>r\<in>set rs. attr_confidence r \<noteq> None \<longrightarrow> attr_success r \<noteq> None \<Longrightarrow>
   successful_confidences rs =
     Inr (map (\<lambda>r. the (attr_confidence r))
            (filter (\<lambda>r. attr_confidence r \<noteq> None \<and> attr_success r = Some True) rs))"
  by (induction rs) (auto split: option.splits)

lemma evaluate_no_successful_confidence:
  assumes "rs \<noteq> []"
    and "\<forall>r\<in>set rs. attr_confidence r \<noteq> None \<longrightarrow> attr_success r \<noteq> None"
    and "\<forall>r\<in>set rs. \<not> (attr_success r = Some True \<and> attr_confidence r \<noteq> None)"
  shows "analyze_convergence self rs iteration cx pattern =
           (Inr (create_convergence_result False ''No successful results with confidence''
                   CONFIDENCE_THRESHOLD), self)"
proof -
  have "filter (\<lambda>r. attr_confidence r \<noteq> None \<and> attr_success r = Some True) rs = []"
    using assms(3) by (auto simp: filter_empty_conv)
  then have "successful_confidences rs = Inr []"
    using successful_confidences_flagged [OF assms(2)] by simp
  then show ?thesis using assms(1) by (simp add: analyze_convergence_def)
qed

text \<open>
  Claim C10. The list below is not empty and no record of it is both successful and
  carries a confidence, so the claim promises the fixed non-converged verdict; the code
  reads \<open>r.success\<close> of a record that carries a confidence with no \<open>hasattr\<close> before it
  and raises \<open>AttributeError\<close>. (Where every record that carries a confidence has a
  success flag the fixed verdict is returned: \<open>evaluate_no_successful_confidence\<close>.)
\<close>

theorem evaluate_raises_without_success_flag:
  "analyze_convergence self
     [\<lparr>attr_tool_name = Some ''brain_recall'', attr_success = None,
       attr_confidence = Some 0.9\<rparr>] 1 ''medium'' [''brain_recall'']
   = (Inl (AttributeError ''success''), self)"
  by (simp add: analyze_convergence_def)


subsection \<open>Score ranges\<close>

lemma sum_list_unit:
  "\<forall>x\<in>set xs. 0 \<le> x \<and> x \<le> (1::real) \<Longrightarrow> 0 \<le> sum_list xs \<and> sum_list xs \<le> real (length xs)"
  by (induction xs) auto

lemma arith_mean_unit:
  assumes "xs \<noteq> []" and "\<forall>x\<in>set xs. 0 \<le> x \<and> x \<le> (1::real)"
  shows "0 \<le> arith_mean xs \<and> arith_mean xs \<le> 1"
proof -
  have n: "0 < real (length xs)" using assms(1) by simp
  from sum_list_unit [OF assms(2)] show ?thesis
    unfolding arith_mean_def using n by (simp add: divide_le_eq)
qed

lemma sample_stdev_nonneg: "0 \<le> sample_stdev xs"
  unfolding sample_stdev_def
  by (intro real_sqrt_ge_zero divide_nonneg_nonneg sum_list_nonneg) auto

lemma confidence_threshold_score_unit:
  assumes "cs \<noteq> []" and "\<forall>c\<in>set cs. 0 \<le> c \<and> c \<le> 1" and "0 \<le> sr" and "sr \<le> 1"
  shows "\<exists>r. analyze_confidence_threshold base cs sr cx = Inr r
           \<and> strategy r = CONFIDENCE_THRESHOLD \<and> 0 \<le> score r \<and> score r \<le> 1"
proof -
  define m where "m = arith_mean cs"
  define sd where "sd = (if 1 < length cs then sample_stdev cs else 0)"
  define stab where "stab = (if 0 < m then 1 - min (sd / m) 1 else 0)"
  have m: "0 \<le> m" "m \<le> 1" using arith_mean_unit [OF assms(1,2)] by (simp_all add: m_def)
  have sd: "0 \<le> sd" by (simp add: sd_def sample_stdev_nonneg)
  have stab: "0 \<le> stab" "stab \<le> 1"
    using sd m by (auto simp: stab_def min_def)
  have prod: "0 \<le> m * sr * stab" using m stab assms(3) by simp
  have "m * sr \<le> 1" using m assms(3,4) by (simp add: mult_le_one)
  then have prod1: "m * sr * stab \<le> 1"
    using stab m assms(3) by (simp add: mult_le_one)
  have "\<exists>r. analyze_confidence_threshold base cs sr cx = Inr r
           \<and> strategy r = CONFIDENCE_THRESHOLD \<and> score r = m * sr * stab"
    using assms(1)
    by (auto simp: analyze_confidence_threshold_def statistics_mean_def statistics_stdev_def
          Let_def m_def sd_def stab_def)
  with prod prod1 show ?thesis by auto
qed

lemma information_gains_unit:
  "\<forall>c\<in>set cs. 0 \<le> c \<and> c \<le> 1 \<Longrightarrow> \<forall>g\<in>set (information_gains cs). 0 \<le> g \<and> g \<le> 1"
  by (induction cs rule: information_gains.induct) auto

lemma diminishing_returns_score_unit:
  assumes "\<forall>c\<in>set cs. 0 \<le> c \<and> c \<le> 1"
  shows "\<exists>r. analyze_diminishing_returns cs = Inr r
           \<and> strategy r = DIMINISHING_RETURNS \<and> 0 \<le> score r \<and> score r \<le> 1"
proof (cases "length cs < 3")
  case True
  then show ?thesis by (simp add: analyze_diminishing_returns_def)
next
  case False
  define gains where "gains = information_gains cs"
  have len: "2 \<le> length gains" using False by (simp add: gains_def length_information_gains)
  then have ne: "gains \<noteq> []" by auto
  have "0 \<le> arith_mean gains \<and> arith_mean gains \<le> 1"
    using arith_mean_unit [OF ne] information_gains_unit [OF assms] by (simp add: gains_def)
  then show ?thesis
    using False len ne
    by (auto simp: analyze_diminishing_returns_def statistics_mean_def Let_def
          gains_def [symmetric])
qed

lemma sane_records_Cons:
  "sane_records (r # rs) =
     ((case attr_confidence r of None \<Rightarrow> True
       | Some c \<Rightarrow> attr_success r \<noteq> None \<and> 0 \<le> c \<and> c \<le> 1) \<and> sane_records rs)"
  by (simp add: sane_records_def)

lemma sane_records_append:
  "sane_records (xs @ ys) = (sane_records xs \<and> sane_records ys)"
  by (simp add: sane_records_def)

lemma successful_confidences_sane:
  "sane_records rs \<Longrightarrow>
   \<exists>cs. successful_confidences rs = Inr cs \<and> (\<forall>c\<in>set cs. 0 \<le> c \<and> c \<le> 1)"
proof (induction rs)
  case Nil
  then show ?case by simp
next
  case (Cons r rs)
  then obtain cs where cs: "successful_confidences rs = Inr cs" "\<forall>c\<in>set cs. 0 \<le> c \<and> c \<le> 1"
    by (auto simp: sane_records_Cons)
  show ?case using Cons.prems cs
    by (auto simp: sane_records_Cons split: option.splits)
qed

lemma group_append_sane:
  "list_all (\<lambda>g. sane_records (snd g)) groups \<Longrightarrow> sane_records [r] \<Longrightarrow>
   list_all (\<lambda>g. sane_records (snd g)) (group_append k r groups)"
  by (induction k r groups rule: group_append.induct) (auto simp: sane_records_append)

lemma group_by_tool_sane:
  "list_all (\<lambda>g. sane_records (snd g)) groups \<Longrightarrow> sane_records rs \<Longrightarrow>
   list_all (\<lambda>g. sane_records (snd g)) (group_by_tool pattern i rs groups)"
proof (induction rs arbitrary: i groups)
  case Nil
  then show ?case by simp
next
  case (Cons r rs)
  have "sane_records [r]" using Cons.prems(2) by (simp add: sane_records_def)
  then have "list_all (\<lambda>g. sane_records (snd g))
               (group_append (tool_name_of pattern i r) r groups)"
    using Cons.prems(1) by (rule group_append_sane [rotated])
  moreover have "sane_records rs" using Cons.prems(2) by (simp add: sane_records_def)
  ultimately show ?case using Cons.IH by simp
qed

lemma consensus_scores_sane:
  "list_all (\<lambda>g. sane_records (snd g)) groups \<Longrightarrow>
   \<exists>scores. consensus_scores_of groups = Inr scores \<and> (\<forall>x\<in>set scores. 0 \<le> x \<and> x \<le> 1)"
proof (induction groups)
  case Nil
  then show ?case by simp
next
  case (Cons g groups)
  obtain k results where g: "g = (k, results)" by (cases g)
  from Cons.prems have sr: "sane_records results" by (simp add: g)
  from Cons obtain others where
    others: "consensus_scores_of groups = Inr others" "\<forall>x\<in>set others. 0 \<le> x \<and> x \<le> 1"
    by auto
  from successful_confidences_sane [OF sr] obtain cs where
    cs: "successful_confidences results = Inr cs" "\<forall>c\<in>set cs. 0 \<le> c \<and> c \<le> 1"
    by blast
  show ?case
  proof (cases "cs = []")
    case True
    then show ?thesis using cs others by (simp add: g)
  next
    case False
    from arith_mean_unit [OF False cs(2)] show ?thesis
      using False cs others by (simp add: g statistics_mean_def)
  qed
qed

lemma consensus_validation_score_le_one:
  assumes "sane_records rs"
  shows "\<exists>r. analyze_consensus_validation rs pattern = Inr r
           \<and> strategy r = CONSENSUS_VALIDATION \<and> score r \<le> 1"
proof (cases "pattern = [] \<or> length rs < 2")
  case True
  then show ?thesis by (auto simp: analyze_consensus_validation_def)
next
  case False
  have "list_all (\<lambda>g. sane_records (snd g)) (group_by_tool pattern 0 rs [])"
    using assms by (intro group_by_tool_sane) simp_all
  from consensus_scores_sane [OF this] obtain scores where
    sc: "consensus_scores_of (group_by_tool pattern 0 rs []) = Inr scores"
      "\<forall>x\<in>set scores. 0 \<le> x \<and> x \<le> 1"
    by blast
  show ?thesis
  proof (cases "scores = []")
    case True
    then show ?thesis using False sc by (simp add: analyze_consensus_validation_def)
  next
    case ne: False
    define overall where "overall = arith_mean scores"
    define stab where "stab = (if 1 < length scores \<and> 0 < overall
                               then 1 - sample_stdev scores / overall else 1)"
    have ov: "0 \<le> overall" "overall \<le> 1"
      using arith_mean_unit [OF ne sc(2)] by (simp_all add: overall_def)
    have "stab \<le> 1"
      using sample_stdev_nonneg [of scores] by (auto simp: stab_def)
    then have "overall * stab \<le> overall * 1" using ov(1) by (rule mult_left_mono)
    then have le: "overall * stab \<le> 1" using ov(2) by simp
    have "\<exists>r. analyze_consensus_validation rs pattern = Inr r
           \<and> strategy r = CONSENSUS_VALIDATION \<and> score r = overall * stab"
      using False sc ne
      by (auto simp: analyze_consensus_validation_def statistics_mean_def statistics_stdev_def
            Let_def overall_def stab_def)
    with le show ?thesis by auto
  qed
qed

lemma adaptive_learning_score_bounds:
  assumes "cs \<noteq> []" and "\<forall>c\<in>set cs. 0 \<le> c \<and> c \<le> 1" and "sane_store self"
  shows "\<exists>r. fst (analyze_adaptive_learning self cs pattern cx) = Inr r
           \<and> strategy r = ADAPTIVE_LEARNING \<and> 0 \<le> score r \<and> score r \<le> 10
           \<and> (\<not> converged r \<longrightarrow> score r \<le> 1)
           \<and> (dict_get (map_option executions \<circ> map_of (pattern_performance self))
                 (pattern_key cx pattern) 0 = 0 \<longrightarrow> score r \<le> 1)"
proof (cases "pattern = []")
  case True
  then show ?thesis by (simp add: analyze_adaptive_learning_def)
next
  case False
  define cur where "cur = arith_mean cs"
  have cur: "0 \<le> cur" "cur \<le> 1" using arith_mean_unit [OF assms(1,2)] by (simp_all add: cur_def)
  show ?thesis
  proof (cases "map_of (pattern_performance self) (pattern_key cx pattern)")
    case None
    then show ?thesis using False assms(1) cur
      by (simp add: analyze_adaptive_learning_def map_of_ensure_key statistics_mean_def
            new_perf_def Let_def cur_def dict_get_def)
  next
    case (Some h)
    then have "(pattern_key cx pattern, h) \<in> set (pattern_performance self)"
      by (rule map_of_SomeD)
    then have avg: "0 \<le> avg_confidence h"
      using assms(3) by (auto simp: sane_store_def list_all_iff)
    define thr where "thr = min 0.9 (avg_confidence h + 0.1)"
    have thr: "0.1 \<le> thr" using avg by (simp add: thr_def min_def)
    have q0: "0 \<le> cur / thr" using cur thr by simp
    have "cur / thr \<le> 1 / (1 / 10)"
      using cur thr by (intro frac_le) simp_all
    then have q10: "cur / thr \<le> 10" by simp
    have q1: "cur / thr \<le> 1" if "\<not> thr \<le> cur"
      using that thr by (simp add: divide_le_eq)
    show ?thesis
      using False assms(1) cur Some thr q0 q10 q1
      by (auto simp: analyze_adaptive_learning_def map_of_ensure_key statistics_mean_def
            Let_def cur_def [symmetric] thr_def [symmetric] dict_get_def)
  qed
qed


lemma combine_confidence:
  "v_confidence (combine_convergence_strategies s1 s2 s3 s4) =
     (\<Sum>s\<leftarrow>filter (\<lambda>s. 0 < score s) [s1, s2, s3, s4]. score s * weight_of s)"
proof -
  define valid where "valid = filter (\<lambda>s. 0 < score s) [s1, s2, s3, s4]"
  show ?thesis
  proof (cases valid)
    case Nil
    then show ?thesis
      unfolding combine_convergence_strategies_def valid_def [symmetric] Let_def
      by (simp add: create_convergence_result_def)
  next
    case (Cons a as)
    obtain details where cl: "combine_loop valid ([], 0, []) =
        (map (\<lambda>s. score s * weight_of s) valid,
         sum_list (map (\<lambda>s. if converged s then weight_of s else 0) valid), details)"
      using combine_loop_sums [of valid "[]" 0 "[]"] by auto
    show ?thesis
      unfolding combine_convergence_strategies_def valid_def [symmetric] Let_def
      using cl unfolding Cons by (simp del: combine_loop.simps)
  qed
qed

lemma combine_confidence_bounds:
  assumes "strategy s1 = CONFIDENCE_THRESHOLD" and "strategy s2 = DIMINISHING_RETURNS"
    and "strategy s3 = CONSENSUS_VALIDATION" and "strategy s4 = ADAPTIVE_LEARNING"
    and "score s1 \<le> 1" and "score s2 \<le> 1" and "score s3 \<le> 1"
  shows "0 \<le> v_confidence (combine_convergence_strategies s1 s2 s3 s4)
     \<and> v_confidence (combine_convergence_strategies s1 s2 s3 s4) \<le> 0.85 + 0.15 * max 0 (score s4)"
  unfolding combine_confidence using assms
  by (simp add: weight_of_table max_def)

lemma count_successes_le: "count_successes rs \<le> length rs"
  by (simp add: count_successes_def)

lemma success_rate_unit:
  "rs \<noteq> [] \<Longrightarrow> 0 \<le> real (count_successes rs) / real (length rs)
     \<and> real (count_successes rs) / real (length rs) \<le> 1"
  using count_successes_le [of rs] by (simp add: divide_le_eq)

lemmas run_defs = analyze_convergence_def sample_record_def init_analyzer_def count_successes_def
      analyze_confidence_threshold_def analyze_diminishing_returns_def
      analyze_consensus_validation_def analyze_adaptive_learning_def
      combine_convergence_strategies_def update_convergence_history_def
      statistics_mean_def arith_mean_def dict_get_def complexity_thresholds_def
      pattern_key_def ensure_key_def new_perf_def Let_def best_patterns_def
      create_convergence_result_def generate_convergence_recommendation_def

text \<open>
  Claim C7, as amended. For records and a store the data model admits, the four
  strategies return: the confidence-threshold and the diminishing-returns scores are in
  \<open>[0, 1]\<close>; the consensus score is at most 1; the adaptive-learning score is in
  \<open>[0, 10]\<close>, and at most 1 when the strategy does not report convergence or the key has
  no recorded execution. The combined score of their combination is at least 0 and at
  most 0.85 + 0.15 times the adaptive-learning score, so at most 1 when that score is;
  every verdict the analyzer returns has a combined score in \<open>[0, 2.35]\<close>.
\<close>

theorem score_bounds:
  assumes "sane_records rs" and "sane_store self"
  shows "(\<exists>cs. successful_confidences rs = Inr cs \<and>
           (cs \<noteq> [] \<longrightarrow>
             (\<exists>r1 r2 r3 r4.
                analyze_confidence_threshold (base_threshold self) cs
                  (real (count_successes rs) / real (length rs)) cx = Inr r1
                \<and> 0 \<le> score r1 \<and> score r1 \<le> 1
                \<and> analyze_diminishing_returns cs = Inr r2
                \<and> 0 \<le> score r2 \<and> score r2 \<le> 1
                \<and> analyze_consensus_validation rs pattern = Inr r3
                \<and> score r3 \<le> 1
                \<and> fst (analyze_adaptive_learning self cs pattern cx) = Inr r4
                \<and> 0 \<le> score r4 \<and> score r4 \<le> 10
                \<and> (\<not> converged r4 \<longrightarrow> score r4 \<le> 1)
                \<and> (dict_get (map_option executions \<circ> map_of (pattern_performance self))
                      (pattern_key cx pattern) 0 = 0 \<longrightarrow> score r4 \<le> 1)
                \<and> 0 \<le> v_confidence (combine_convergence_strategies r1 r2 r3 r4)
                \<and> v_confidence (combine_convergence_strategies r1 r2 r3 r4)
                     \<le> 0.85 + 0.15 * score r4
                \<and> (score r4 \<le> 1 \<longrightarrow>
                     v_confidence (combine_convergence_strategies r1 r2 r3 r4) \<le> 1))))
     \<and> (\<forall>v self'. analyze_convergence self rs iteration cx pattern = (Inr v, self') \<longrightarrow>
           0 \<le> v_confidence v \<and> v_confidence v \<le> 2.35)"
    (is "(\<exists>cs. _ \<and> (_ \<longrightarrow> ?B cs)) \<and> ?P")
proof -
  from successful_confidences_sane [OF assms(1)] obtain cs where
    cs: "successful_confidences rs = Inr cs" "\<forall>c\<in>set cs. 0 \<le> c \<and> c \<le> 1"
    by blast
  define rate where "rate = real (count_successes rs) / real (length rs)"
  have strategies: "?B cs"
    if ne: "cs \<noteq> []"
  proof -
    have "rs \<noteq> []" using cs(1) ne by auto
    from success_rate_unit [OF this] have rate: "0 \<le> rate" "rate \<le> 1"
      by (simp_all add: rate_def)
    from confidence_threshold_score_unit [OF ne cs(2) rate] obtain r1 where
      r1: "analyze_confidence_threshold (base_threshold self) cs rate cx = Inr r1"
        "strategy r1 = CONFIDENCE_THRESHOLD" "0 \<le> score r1" "score r1 \<le> 1"
      by blast
    from diminishing_returns_score_unit [OF cs(2)] obtain r2 where
      r2: "analyze_diminishing_returns cs = Inr r2"
        "strategy r2 = DIMINISHING_RETURNS" "0 \<le> score r2" "score r2 \<le> 1"
      by blast
    from consensus_validation_score_le_one [OF assms(1)] obtain r3 where
      r3: "analyze_consensus_validation rs pattern = Inr r3"
        "strategy r3 = CONSENSUS_VALIDATION" "score r3 \<le> 1"
      by blast
    from adaptive_learning_score_bounds [OF ne cs(2) assms(2)] obtain r4 where
      r4: "fst (analyze_adaptive_learning self cs pattern cx) = Inr r4"
        "strategy r4 = ADAPTIVE_LEARNING" "0 \<le> score r4" "score r4 \<le> 10"
        "\<not> converged r4 \<longrightarrow> score r4 \<le> 1"
        "dict_get (map_option executions \<circ> map_of (pattern_performance self))
                      (pattern_key cx pattern) 0 = 0 \<longrightarrow> score r4 \<le> 1"
      by blast
    from combine_confidence_bounds [OF r1(2) r2(2) r3(2) r4(2) r1(4) r2(4) r3(3)]
    have cb: "0 \<le> v_confidence (combine_convergence_strategies r1 r2 r3 r4)"
      "v_confidence (combine_convergence_strategies r1 r2 r3 r4) \<le> 0.85 + 0.15 * score r4"
      using r4(3) by (simp_all add: max_def)
    then have imp: "score r4 \<le> 1 \<longrightarrow>
                 v_confidence (combine_convergence_strategies r1 r2 r3 r4) \<le> 1"
      by auto
    show ?thesis
      unfolding rate_def [symmetric]
      apply (rule exI [of _ r1], rule exI [of _ r2], rule exI [of _ r3], rule exI [of _ r4])
      apply (intro conjI)
      apply (fact r1 r2 r3 r4 cb imp)+
      done
  qed
  have pipeline: "0 \<le> v_confidence v \<and> v_confidence v \<le> 2.35"
    if run: "analyze_convergence self rs iteration cx pattern = (Inr v, self')" for v self'
  proof (cases "rs = [] \<or> cs = []")
    case True
    then have "v = create_convergence_result False ''No results to analyze'' CONFIDENCE_THRESHOLD
             \<or> v = create_convergence_result False ''No successful results with confidence''
                     CONFIDENCE_THRESHOLD"
      using run cs(1) by (auto simp: analyze_convergence_def split: if_splits)
    then show ?thesis by (auto simp: create_convergence_result_def)
  next
    case False
    then have ne: "cs \<noteq> []" and rne: "rs \<noteq> []" by auto
    from strategies [OF ne, unfolded rate_def [symmetric]] obtain r1 r2 r3 r4 where
      r: "analyze_confidence_threshold (base_threshold self) cs rate cx = Inr r1"
         "analyze_diminishing_returns cs = Inr r2"
         "analyze_consensus_validation rs pattern = Inr r3"
         "fst (analyze_adaptive_learning self cs pattern cx) = Inr r4"
         "score r4 \<le> 10"
         "0 \<le> v_confidence (combine_convergence_strategies r1 r2 r3 r4)"
         "v_confidence (combine_convergence_strategies r1 r2 r3 r4) \<le> 0.85 + 0.15 * score r4"
      by blast
    obtain self1 where a4: "analyze_adaptive_learning self cs pattern cx = (Inr r4, self1)"
      using r(4) by (cases "analyze_adaptive_learning self cs pattern cx") auto
    have "v = combine_convergence_strategies r1 r2 r3 r4"
      using run cs(1) ne rne r(1-3) a4
      by (auto simp: analyze_convergence_def Let_def rate_def split: prod.splits option.splits)
    then show ?thesis using r(5-7) by simp
  qed
  have "\<exists>cs. successful_confidences rs = Inr cs \<and> (cs \<noteq> [] \<longrightarrow> ?B cs)"
    by (intro exI [of _ cs] conjI impI) (fact cs(1), rule strategies)
  moreover have ?P using pipeline by blast
  ultimately show ?thesis ..
qed

theorem score_bounds_witness:
  "sane_records [sample_record ''brain_recall'' True 0.9]
   \<and> sane_store (init_analyzer 0.75)
   \<and> (case analyze_convergence (init_analyzer 0.75) [sample_record ''brain_recall'' True 0.9] 1
              ''simple'' [''brain_recall''] of
         (Inr v, a) \<Rightarrow> 0 \<le> v_confidence v \<and> v_confidence v \<le> 2.35
       | (Inl e, a) \<Rightarrow> False)"
  using score_bounds [of "[sample_record ''brain_recall'' True 0.9]" "init_analyzer 0.75"
          "''simple''" "[''brain_recall'']" 1]
  by (simp add: run_defs sane_records_def sane_store_def)

text \<open>
  The claim as it was stated puts every score in \<open>[0, 1]\<close>. After one run of the pattern
  \<open>simple:brain_recall\<close> with confidence 0.1, a run with confidence 1.0 has the adaptive
  threshold 0.2, the adaptive-learning score 5 and the combined score 1.15.
\<close>

theorem score_bounds_counterexample:
  "(case analyze_convergence
           (snd (analyze_convergence (init_analyzer 0.75)
                   [sample_record ''brain_recall'' True 0.1] 1 ''simple'' [''brain_recall'']))
           [sample_record ''brain_recall'' True 1] 2 ''simple'' [''brain_recall''] of
      (Inr v, a) \<Rightarrow>
         combined_score v = Some 1.15
         \<and> map_option (map (\<lambda>kv. (fst kv, score (snd kv)))) (strategy_details v)
             = Some [(''confidence_threshold'', 1), (''adaptive_learning'', 5)]
    | (Inl e, a) \<Rightarrow> False)"
  by (simp add: run_defs)


section \<open>Properties of the classifier and the pattern catalog\<close>










lemma lower_simps [simp]:
  "lower [] = []" "lower (c # cs) = lower_char c # lower cs"
  by (simp_all add: lower_def)



text \<open>
  Claim C9, as amended. The lookup is a function of the tier over a constant table. The
  simple pattern has 1 step, medium 3, complex 5 and expert 6; an unknown tier gets the
  medium pattern. The levels of the simple, medium and complex patterns alternate from
  HIGH; the levels of the expert pattern are HIGH, LOW, HIGH, LOW, LOW, HIGH. (The
  engine's table lists tool names only, with the same lengths and the same fallback.)
\<close>

theorem pattern_for_spec:
  "(\<exists>p. selector_get_pattern ''simple'' = Inr p \<and> length p = 1
        \<and> map level p = [''HIGH''])
   \<and> (\<exists>p. selector_get_pattern ''medium'' = Inr p \<and> length p = 3
        \<and> map level p = [''HIGH'', ''LOW'', ''HIGH''] \<and> alternates (map level p))
   \<and> (\<exists>p. selector_get_pattern ''complex'' = Inr p \<and> length p = 5
        \<and> map level p = [''HIGH'', ''LOW'', ''HIGH'', ''LOW'', ''HIGH'']
        \<and> alternates (map level p))
   \<and> (\<exists>p. selector_get_pattern ''expert'' = Inr p \<and> length p = 6
        \<and> map level p = [''HIGH'', ''LOW'', ''HIGH'', ''LOW'', ''LOW'', ''HIGH''])
   \<and> (complexity \<notin> {''simple'', ''medium'', ''complex'', ''expert''} \<longrightarrow>
        selector_get_pattern complexity = selector_get_pattern ''medium'')
   \<and> get_pattern ''simple'' = Inr [''brain_recall'']
   \<and> get_pattern ''medium'' = Inr [''brain_recall'', ''web_search'', ''brain_remember'']
   \<and> get_pattern ''complex'' = Inr [''brain_recall'', ''sequential_thinking'', ''web_search'',
                                    ''reasoning_tools'', ''brain_remember'']
   \<and> get_pattern ''expert'' = Inr [''brain_recall'', ''sequential_thinking'', ''web_search'',
                                   ''reasoning_tools'', ''brain_remember'', ''brain_recall'']
   \<and> (complexity \<notin> {''simple'', ''medium'', ''complex'', ''expert''} \<longrightarrow>
        get_pattern complexity = get_pattern ''medium'')"
  by (simp add: selector_get_pattern_def selector_patterns_def get_pattern_def
        execution_patterns_def dict_get_def)

theorem pattern_for_spec_witness:
  "''unknown'' \<notin> {''simple'', ''medium'', ''complex'', ''expert''}
   \<and> selector_get_pattern ''unknown'' = selector_get_pattern ''medium''
   \<and> get_pattern ''unknown'' = Inr [''brain_recall'', ''web_search'', ''brain_remember'']"
  using pattern_for_spec [of "''unknown''"] by simp

text \<open>
  The claim as it was stated has the levels alternate in every pattern; the fourth and
  fifth steps of the expert pattern are both LOW.
\<close>

theorem pattern_for_counterexample:
  "(case selector_get_pattern ''expert'' of
      Inr p \<Rightarrow> \<not> alternates (map level p)
    | Inl e \<Rightarrow> False)"
  by (simp add: selector_get_pattern_def selector_patterns_def dict_get_def)


section \<open>Properties of the execution engine\<close>

subsection \<open>The retrying orchestrator\<close>










subsection \<open>The entry point\<close>










end
